theory Spec2Isabelle
  imports Complex_Main
begin

section \<open>Inventory reorder dashboard: the prediction pipeline of \<open>src/App.js\<close>\<close>

text \<open>
  The program is a React component built on a numeric library. JavaScript numbers are
  modelled by \<open>real\<close> (and by \<open>int\<close> where the code has applied \<open>Math.round\<close>), strings
  by \<open>string\<close>, arrays by lists. The global generator behind \<open>Math.random()\<close> is a
  stream of draws \<open>nat \<Rightarrow> real\<close> together with the position of the next draw, which the
  functions thread through.

  The repository holds a second copy of the component, \<open>InventoryDashboard.jsx\<close>. Its
  helper functions and handlers have the same logic; it calls \<open>alert\<close> where \<open>App.js\<close>
  calls \<open>showMessage\<close>, fetches the catalogue with one request, and trains on the first
  four of the six examples. The development follows \<open>App.js\<close>; of the copy it embeds
  what differs in the pipeline, the training helper \<open>buildAndTrainModel_jsx\<close> and its data.
\<close>

subsection \<open>Numbers\<close>

text \<open>\<open>Math.round\<close>: the nearest integer, a tie going towards plus infinity.\<close>

definition Math_round :: "real \<Rightarrow> int" where
  "Math_round x = \<lfloor>x + 1 / 2\<rfloor>"

subsection \<open>Data\<close>

text \<open>A raw product of the catalogue, as the code reads it: \<open>p.id\<close>, \<open>p.title\<close>, \<open>p.price\<close>.\<close>

record RawProduct =
  id_p :: int
  title :: string
  price :: real

text \<open>The object literal returned by the arrow function of \<open>createAugmentedProducts\<close>.\<close>

record item =
  id_it :: int
  name :: string
  currentInventory :: int
  averageSalesPerWeek :: int
  daysToReplenish :: int
  reorderPrediction :: string
  mlFeatures :: "int list"

subsection \<open>Data augmentation\<close>

text \<open>
  The body of the arrow function, for one product. \<open>r1\<close> is the value of the first call of
  \<open>Math.random()\<close> (in \<open>avgSales\<close>), \<open>r2\<close> of the second (in \<open>leadTime\<close>).
\<close>

definition augment :: "real \<Rightarrow> real \<Rightarrow> RawProduct \<Rightarrow> item" where
  "augment r1 r2 p =
     (let baseInv = Math_round (price p * 2.5 + real_of_int (id_p p) * 5);
          avgSales = Math_round (real_of_int baseInv * (0.1 + r1 * 0.2));
          leadTime = Math_round (1 + r2 * 5)
      in \<lparr> id_it = id_p p,
           name = (if length (title p) > 40 then take 40 (title p) @ ''...'' else title p),
           currentInventory = baseInv,
           averageSalesPerWeek = avgSales,
           daysToReplenish = leadTime,
           reorderPrediction = ''Pending'',
           mlFeatures = [baseInv, avgSales, leadTime] \<rparr>)"

text \<open>
  \<open>rawProducts.map(...)\<close>: the products in order, each taking the next two draws. The
  result is the new array and the position of the generator afterwards.
\<close>

fun createAugmentedProducts ::
  "(nat \<Rightarrow> real) \<Rightarrow> RawProduct list \<Rightarrow> nat \<Rightarrow> item list \<times> nat" where
  "createAugmentedProducts rnd [] k = ([], k)"
| "createAugmentedProducts rnd (p # ps) k =
     (let it = augment (rnd k) (rnd (Suc k)) p;
          (its, k') = createAugmentedProducts rnd ps (Suc (Suc k))
      in (it # its, k'))"

text \<open>A generator is uniform on \<open>[0, 1)\<close>: every draw is at least 0 and below 1.\<close>

definition unit_draws :: "(nat \<Rightarrow> real) \<Rightarrow> bool" where
  "unit_draws rnd = (\<forall>k. 0 \<le> rnd k \<and> rnd k < 1)"

subsection \<open>The numeric library\<close>

text \<open>
  Modelled from the spec: the numeric library that the component imports is not part of
  the repository. The model keeps what the spec names of it: numeric buffers that are
  created and released and whose live count can be read, a network built from layers and
  compiled, a fit over a number of epochs, and a forward pass that gives a probability.
  What the library computes (weights, shuffles, optimiser steps, probabilities) is a
  parameter, \<open>tf_lib\<close>.
\<close>

text \<open>An exception thrown by the library or by the network layer, with its message.\<close>

datatype error = TfError string | HttpError string

text \<open>
  The library counts the tensors that are alive (\<open>tf.memory().numTensors\<close>). The engine
  is modelled by the identifier of the next tensor and the identifiers of the live ones;
  a tensor is its identifier and its rows of numbers.
\<close>

record tensor =
  tid :: nat
  vals :: "real list list"

record tf_engine =
  nextId :: nat
  live :: "nat list"

definition tensor2d :: "real list list \<Rightarrow> tf_engine \<Rightarrow> tensor \<times> tf_engine" where
  "tensor2d vs e =
     (\<lparr> tid = nextId e, vals = vs \<rparr>,
      \<lparr> nextId = Suc (nextId e), live = live e @ [nextId e] \<rparr>)"

definition dispose :: "tensor \<Rightarrow> tf_engine \<Rightarrow> tf_engine" where
  "dispose t e = e\<lparr> live := removeAll (tid t) (live e) \<rparr>"

definition numTensors :: "tf_engine \<Rightarrow> nat" where
  "numTensors e = length (live e)"

text \<open>\<open>t.dataSync()[0]\<close>: the first number of the tensor, \<open>undefined\<close> when it has none.\<close>

definition dataSync :: "tensor \<Rightarrow> real list" where
  "dataSync t = concat (vals t)"

definition first_value :: "real list \<Rightarrow> real option" where
  "first_value vs = (case vs of [] \<Rightarrow> None | v # _ \<Rightarrow> Some v)"

text \<open>The arguments of \<open>tf.layers.dense\<close> and of \<open>model.compile\<close>, as the code writes them.\<close>

record dense =
  inputShape :: "nat list option"
  units :: nat
  activation :: string

record compileArgs =
  optimizer :: string
  loss :: string
  metrics :: "string list"

type_synonym example = "real list \<times> real list"

text \<open>
  The history of a fit: for each epoch run, its number and the examples in the order in
  which the epoch used them. A model keeps the history of its last fit.
\<close>

type_synonym history = "(nat \<times> example list) list"

record 'w LayersModel =
  layers :: "dense list"
  compiled :: "compileArgs option"
  weights :: 'w
  history :: history

text \<open>
  What the library computes is a parameter of the model: the initial weights of a stack of
  layers, the permutation of the examples drawn at an epoch, one epoch of the optimiser
  (which may throw), and the forward pass on the rows of an input tensor (which may throw),
  giving the number the output tensor holds.
\<close>

record 'w tf_lib =
  buildWeights :: "dense list \<Rightarrow> 'w"
  shuffler :: "nat \<Rightarrow> example list \<Rightarrow> example list"
  trainEpoch :: "compileArgs \<Rightarrow> 'w \<Rightarrow> example list \<Rightarrow> error + 'w"
  forward :: "'w \<Rightarrow> real list list \<Rightarrow> error + real"

definition sequential :: "'w tf_lib \<Rightarrow> 'w LayersModel" where
  "sequential lib =
     \<lparr> layers = [], compiled = None, weights = buildWeights lib [], history = [] \<rparr>"

definition add :: "'w tf_lib \<Rightarrow> dense \<Rightarrow> 'w LayersModel \<Rightarrow> 'w LayersModel" where
  "add lib l m = m\<lparr> layers := layers m @ [l], weights := buildWeights lib (layers m @ [l]) \<rparr>"

definition compile :: "compileArgs \<Rightarrow> 'w LayersModel \<Rightarrow> 'w LayersModel" where
  "compile args m = m\<lparr> compiled := Some args \<rparr>"

text \<open>The options object of \<open>model.fit\<close>; the callback sees the epoch's number.\<close>

record 'o fitArgs =
  epochs :: nat
  shuffle :: bool
  callbacks :: "(nat \<Rightarrow> 'o \<Rightarrow> 'o) option"

text \<open>
  Modelled from the spec: \<open>model.fit\<close> belongs to the numeric library, which is not part of
  the repository. Training runs for the given number of epochs over the full dataset each
  epoch, the example order reshuffled every epoch when \<open>shuffle\<close> is set; there is no
  early stopping and no validation split. A failure of the optimiser ends the fit with
  that error. \<open>fitLoop\<close> runs the epochs listed, \<open>fit\<close> the epochs \<open>0 \<dots> epochs - 1\<close>.
\<close>

fun fitLoop ::
  "'w tf_lib \<Rightarrow> compileArgs \<Rightarrow> example list \<Rightarrow> 'o fitArgs \<Rightarrow> nat list \<Rightarrow>
     'w \<times> history \<times> 'o \<Rightarrow> error + 'w \<times> history \<times> 'o" where
  "fitLoop lib c exs args [] st = Inr st"
| "fitLoop lib c exs args (k # ks) (w, h, obs) =
     (let batch = (if shuffle args then shuffler lib k exs else exs)
      in case trainEpoch lib c w batch of
           Inl err \<Rightarrow> Inl err
         | Inr w' \<Rightarrow>
             fitLoop lib c exs args ks
               (w', h @ [(k, batch)],
                case callbacks args of None \<Rightarrow> obs | Some onEpochEnd \<Rightarrow> onEpochEnd k obs))"

definition fit ::
  "'w tf_lib \<Rightarrow> 'w LayersModel \<Rightarrow> tensor \<Rightarrow> tensor \<Rightarrow> 'o fitArgs \<Rightarrow> 'o \<Rightarrow>
     error + 'w LayersModel \<times> 'o" where
  "fit lib m xs ys args obs =
     (case compiled m of
        None \<Rightarrow> Inl (TfError ''The model needs to be compiled before being used.'')
      | Some c \<Rightarrow>
          (case fitLoop lib c (zip (vals xs) (vals ys)) args [0 ..< epochs args]
                  (weights m, [], obs) of
             Inl err \<Rightarrow> Inl err
           | Inr (w, h, obs') \<Rightarrow> Inr (m\<lparr> weights := w, history := h \<rparr>, obs')))"

text \<open>
  \<open>model.predict(x)\<close>: the forward pass; on success the output is a new tensor, which the
  caller owns.
\<close>

definition predict ::
  "'w tf_lib \<Rightarrow> 'w LayersModel \<Rightarrow> tensor \<Rightarrow> tf_engine \<Rightarrow> (error + tensor) \<times> tf_engine" where
  "predict lib m x e =
     (case forward lib (weights m) (vals x) of
        Inl err \<Rightarrow> (Inl err, e)
      | Inr p \<Rightarrow> (let (res, e') = tensor2d [[p]] e in (Inr res, e')))"

subsection \<open>Model training helper\<close>

definition trainingFeatures :: "real list list" where
  "trainingFeatures =
     [[20, 50, 3], [5, 30, 5], [15, 40, 4], [8, 60, 2], [100, 10, 1], [2, 50, 6]]"

definition trainingLabels :: "real list list" where
  "trainingLabels = [[0], [1], [0], [1], [0], [1]]"

text \<open>The training data of the copy \<open>InventoryDashboard.jsx\<close>.\<close>

definition trainingFeatures_jsx :: "real list list" where
  "trainingFeatures_jsx = [[20, 50, 3], [5, 30, 5], [15, 40, 4], [8, 60, 2]]"

definition trainingLabels_jsx :: "real list list" where
  "trainingLabels_jsx = [[0], [1], [0], [1]]"

text \<open>The model as \<open>buildAndTrainModel\<close> has built and compiled it, before the fit.\<close>

definition newModel :: "'w tf_lib \<Rightarrow> 'w LayersModel" where
  "newModel lib =
     compile \<lparr> optimizer = ''adam'', loss = ''binaryCrossentropy'', metrics = [''accuracy''] \<rparr>
       (add lib \<lparr> inputShape = None, units = 1, activation = ''sigmoid'' \<rparr>
         (add lib \<lparr> inputShape = Some [3], units = 8, activation = ''relu'' \<rparr>
           (sequential lib)))"

text \<open>
  \<open>buildAndTrainModel\<close>: the two training tensors are created, the model is fitted, and
  after the fit the tensors are disposed and the model is returned. When the fit throws,
  the function is left at the \<open>await\<close>: nothing after it runs.
\<close>

definition buildAndTrainModel ::
  "'w tf_lib \<Rightarrow> (nat \<Rightarrow> 'o \<Rightarrow> 'o) option \<Rightarrow> 'o \<Rightarrow> tf_engine \<Rightarrow>
     (error + 'w LayersModel \<times> 'o) \<times> tf_engine" where
  "buildAndTrainModel lib onEpochEnd obs e =
     (let (features, e1) = tensor2d trainingFeatures e;
          (labels, e2) = tensor2d trainingLabels e1;
          model = newModel lib
      in case fit lib model features labels
                \<lparr> epochs = 200, shuffle = True, callbacks = onEpochEnd \<rparr> obs of
           Inl err \<Rightarrow> (Inl err, e2)
         | Inr (model', obs') \<Rightarrow>
             (Inr (model', obs'), dispose labels (dispose features e2)))"

text \<open>
  \<open>buildAndTrainModel\<close> of the copy \<open>InventoryDashboard.jsx\<close>: the same function, on
  the four rows and four labels of that file.
\<close>

definition buildAndTrainModel_jsx ::
  "'w tf_lib \<Rightarrow> (nat \<Rightarrow> 'o \<Rightarrow> 'o) option \<Rightarrow> 'o \<Rightarrow> tf_engine \<Rightarrow>
     (error + 'w LayersModel \<times> 'o) \<times> tf_engine" where
  "buildAndTrainModel_jsx lib onEpochEnd obs e =
     (let (features, e1) = tensor2d trainingFeatures_jsx e;
          (labels, e2) = tensor2d trainingLabels_jsx e1;
          model = newModel lib
      in case fit lib model features labels
                \<lparr> epochs = 200, shuffle = True, callbacks = onEpochEnd \<rparr> obs of
           Inl err \<Rightarrow> (Inl err, e2)
         | Inr (model', obs') \<Rightarrow>
             (Inr (model', obs'), dispose labels (dispose features e2)))"

subsection \<open>The dashboard component\<close>

text \<open>
  The state of \<open>InventoryDashboard\<close>: its six \<open>useState\<close> cells, and with them the two
  pieces of ambient state that the handlers touch, the library's engine and the position
  of the random generator. A message is its text and its type.
\<close>

record 'w dashboard =
  items :: "item list"
  loading :: bool
  isModelReady :: bool
  tfModel :: "'w LayersModel option"
  totalReorder :: nat
  message :: "(string \<times> string) option"
  console :: "string list"
  tf :: tf_engine
  rng :: nat

definition initial :: "'w dashboard" where
  "initial =
     \<lparr> items = [], loading = True, isModelReady = False, tfModel = None, totalReorder = 0,
       message = None, console = [], tf = \<lparr> nextId = 0, live = [] \<rparr>, rng = 0 \<rparr>"

text \<open>The decimal digits of a number, as a template literal prints it.\<close>

fun decimal :: "nat \<Rightarrow> string" where
  "decimal n =
     (if n < 10 then [char_of (48 + n)]
      else decimal (n div 10) @ [char_of (48 + n mod 10)])"

declare decimal.simps [simp del]

definition showMessage :: "string \<Rightarrow> string \<Rightarrow> 'w dashboard \<Rightarrow> 'w dashboard" where
  "showMessage text type s = s\<lparr> message := Some (text, type) \<rparr>"

text \<open>The timer that \<open>showMessage\<close> starts clears the message when it fires.\<close>

definition clearMessage :: "'w dashboard \<Rightarrow> 'w dashboard" where
  "clearMessage s = s\<lparr> message := None \<rparr>"

text \<open>
  \<open>loadProducts\<close>: five batches are fetched; a batch that fails is logged and counts as
  empty. The batches are flattened, augmented and stored, and \<open>loading\<close> is cleared.
  \<open>fetchBatch i\<close> is what the request for batch \<open>i\<close> gives. The filter that keeps the
  entries that are objects keeps every \<open>RawProduct\<close>, and on products of this type the
  augmentation does not throw, so the \<open>catch\<close> branch of the function is not taken.
\<close>

definition batchResult :: "(nat \<Rightarrow> error + RawProduct list) \<Rightarrow> nat \<Rightarrow> RawProduct list" where
  "batchResult fetchBatch i = (case fetchBatch i of Inl err \<Rightarrow> [] | Inr ps \<Rightarrow> ps)"

definition batchLog :: "(nat \<Rightarrow> error + RawProduct list) \<Rightarrow> nat \<Rightarrow> string list" where
  "batchLog fetchBatch i =
     (case fetchBatch i of
        Inl err \<Rightarrow> [''Error fetching batch '' @ decimal i @ '':'']
      | Inr ps \<Rightarrow> [])"

definition loadProducts ::
  "(nat \<Rightarrow> real) \<Rightarrow> (nat \<Rightarrow> error + RawProduct list) \<Rightarrow> 'w dashboard \<Rightarrow> 'w dashboard" where
  "loadProducts rnd fetchBatch s =
     (let totalBatches = 5;
          allResults = map (batchResult fetchBatch) [0 ..< totalBatches];
          rawProducts = concat allResults;
          (augmented, k) = createAugmentedProducts rnd rawProducts (rng s)
      in s\<lparr> items := augmented, rng := k, loading := False,
             console := console s @ concat (map (batchLog fetchBatch) [0 ..< totalBatches]) \<rparr>)"

text \<open>
  \<open>handleTrainModel\<close>: the flag is cleared and a message shown; then the model is built
  and trained. On success the model and the flag are stored. An exception of the training
  is caught, logged and shown as an error message; the handler itself never throws.
\<close>

definition handleTrainModel :: "'w tf_lib \<Rightarrow> 'w dashboard \<Rightarrow> 'w dashboard" where
  "handleTrainModel lib s =
     (let s1 = showMessage ''Training model... this will take a few seconds.'' ''warning''
                 (s\<lparr> isModelReady := False \<rparr>)
      in case buildAndTrainModel lib None () (tf s1) of
           (Inr (model, u), e) \<Rightarrow>
             showMessage ''Model trained successfully! Ready to predict.'' ''success''
               (s1\<lparr> tf := e, tfModel := Some model, isModelReady := True \<rparr>)
         | (Inl err, e) \<Rightarrow>
             showMessage ''Error training model (check console).'' ''error''
               (s1\<lparr> tf := e, console := console s1 @ [''Training error:''] \<rparr>))"

text \<open>
  The body of the arrow function of \<open>handlePredict\<close>, for one item. The state it threads
  is the engine and the counter \<open>reorderCount\<close>. When \<open>predict\<close> throws, the exception
  leaves the function at that statement.
\<close>

definition predictItem ::
  "'w tf_lib \<Rightarrow> 'w LayersModel \<Rightarrow> item \<Rightarrow> tf_engine \<times> nat \<Rightarrow>
     (error + item) \<times> tf_engine \<times> nat" where
  "predictItem lib model it st =
     (let (e, reorderCount) = st;
          (features, e1) = tensor2d [map real_of_int (mlFeatures it)] e
      in case predict lib model features e1 of
           (Inl err, e2) \<Rightarrow> (Inl err, e2, reorderCount)
         | (Inr res, e2) \<Rightarrow>
             (let prob = first_value (dataSync res);
                  e3 = dispose features e2;
                  e4 = dispose res e3;
                  suggestion =
                    (if (case prob of None \<Rightarrow> False | Some v \<Rightarrow> v \<ge> 0.5)
                     then ''REORDER'' else ''No Reorder'');
                  reorderCount' =
                    (if suggestion = ''REORDER'' then reorderCount + 1 else reorderCount)
              in (Inr (it\<lparr> reorderPrediction := suggestion \<rparr>), e4, reorderCount')))"

text \<open>\<open>items.map(...)\<close>: the items in order; the first exception ends the loop.\<close>

fun predictItems ::
  "'w tf_lib \<Rightarrow> 'w LayersModel \<Rightarrow> item list \<Rightarrow> tf_engine \<times> nat \<Rightarrow>
     (error + item list) \<times> tf_engine \<times> nat" where
  "predictItems lib model [] st = (Inr [], st)"
| "predictItems lib model (it # its) st =
     (case predictItem lib model it st of
        (Inl err, st1) \<Rightarrow> (Inl err, st1)
      | (Inr it', st1) \<Rightarrow>
          (case predictItems lib model its st1 of
             (Inl err, st2) \<Rightarrow> (Inl err, st2)
           | (Inr its', st2) \<Rightarrow> (Inr (it' # its'), st2)))"

text \<open>
  \<open>handlePredict\<close>. Without a model it shows a warning and returns. Otherwise it maps over
  the items and stores the result; an exception of the loop leaves the handler before any
  \<open>set...\<close> call, so only the engine has changed. The first component of the result is the
  exception the handler's promise is rejected with, if any.
\<close>

definition handlePredict :: "'w tf_lib \<Rightarrow> 'w dashboard \<Rightarrow> error option \<times> 'w dashboard" where
  "handlePredict lib s =
     (case tfModel s of
        None \<Rightarrow> (None, showMessage ''Please train the model first!'' ''warning'' s)
      | Some model \<Rightarrow>
          (case predictItems lib model (items s) (tf s, 0) of
             (Inl err, e, reorderCount) \<Rightarrow> (Some err, s\<lparr> tf := e \<rparr>)
           | (Inr updated, e, reorderCount) \<Rightarrow>
               (None,
                showMessage
                  (''Prediction complete. '' @ decimal reorderCount
                     @ '' items flagged for reorder.'') ''success''
                  (s\<lparr> tf := e, items := updated, totalReorder := reorderCount \<rparr>))))"

text \<open>
  What can happen to the component: it is mounted (the effect runs \<open>loadProducts\<close>), a
  button of the toolbar is clicked, or the message timer fires. The toolbar is rendered
  only when \<open>loading\<close> is false; its train button is disabled when the model is ready
  and its predict button when it is not, and a disabled button does not call its handler.
\<close>

datatype event =
  Mount "nat \<Rightarrow> error + RawProduct list"
  | ClickTrain
  | ClickPredict
  | MessageTimeout

fun step :: "(nat \<Rightarrow> real) \<Rightarrow> 'w tf_lib \<Rightarrow> event \<Rightarrow> 'w dashboard \<Rightarrow> 'w dashboard" where
  "step rnd lib (Mount fetchBatch) s = loadProducts rnd fetchBatch s"
| "step rnd lib ClickTrain s =
     (if loading s \<or> isModelReady s then s else handleTrainModel lib s)"
| "step rnd lib ClickPredict s =
     (if loading s \<or> \<not> isModelReady s then s else snd (handlePredict lib s))"
| "step rnd lib MessageTimeout s = clearMessage s"

fun run :: "(nat \<Rightarrow> real) \<Rightarrow> 'w tf_lib \<Rightarrow> event list \<Rightarrow> 'w dashboard \<Rightarrow> 'w dashboard" where
  "run rnd lib [] s = s"
| "run rnd lib (ev # evs) s = run rnd lib evs (step rnd lib ev s)"

subsection \<open>Predicates of the statements\<close>

text \<open>The feature array of a record is its three numbers, in the order of the columns.\<close>

definition features_ok :: "item \<Rightarrow> bool" where
  "features_ok it =
     (mlFeatures it = [currentInventory it, averageSalesPerWeek it, daysToReplenish it])"

text \<open>Two records agree on every field other than \<open>reorderPrediction\<close>.\<close>

definition same_fields :: "item \<Rightarrow> item \<Rightarrow> bool" where
  "same_fields it it' =
     (id_it it' = id_it it \<and> name it' = name it
      \<and> currentInventory it' = currentInventory it
      \<and> averageSalesPerWeek it' = averageSalesPerWeek it
      \<and> daysToReplenish it' = daysToReplenish it
      \<and> mlFeatures it' = mlFeatures it)"

text \<open>
  \<open>it'\<close> is \<open>it\<close> with the decision that the forward pass on its features gives at the
  threshold 0.5.
\<close>

definition decided :: "'w tf_lib \<Rightarrow> 'w LayersModel \<Rightarrow> item \<Rightarrow> item \<Rightarrow> bool" where
  "decided lib model it it' =
     (\<exists>p. forward lib (weights model) [map real_of_int (mlFeatures it)] = Inr p
        \<and> it' = it\<lparr> reorderPrediction := (if 0.5 \<le> p then ''REORDER'' else ''No Reorder'') \<rparr>)"

text \<open>
  The classifier is trained when the flag \<open>isModelReady\<close> is set (the dashboard then
  shows the status \<open>Trained\<close>) and a model is stored.
\<close>

definition Trained :: "'w dashboard \<Rightarrow> bool" where
  "Trained s = (isModelReady s \<and> tfModel s \<noteq> None)"

subsection \<open>Example inputs\<close>

text \<open>Concrete products and generators, on which the theorems below are exercised.\<close>

definition tshirt :: RawProduct where
  "tshirt =
     \<lparr> id_p = 2, title = ''Mens Casual Premium Slim Fit T-Shirts (Black)'', price = 22.3 \<rparr>"

definition jacket :: RawProduct where
  "jacket = \<lparr> id_p = 3, title = ''Mens Cotton Jacket'', price = 55.99 \<rparr>"

definition refund :: RawProduct where
  "refund = \<lparr> id_p = 1, title = ''Refund'', price = - 6 \<rparr>"

definition half_draws :: "nat \<Rightarrow> real" where
  "half_draws k = 1 / 2"

definition zero_draws :: "nat \<Rightarrow> real" where
  "zero_draws k = 0"

text \<open>
  Three instances of the library. \<open>demoLib\<close> trains without failure and predicts a high
  probability for a low stock; the optimiser of \<open>failingLib\<close> throws; \<open>flakyLib\<close>
  trains, and its forward pass throws.
\<close>

definition demoLib :: "nat tf_lib" where
  "demoLib =
     \<lparr> buildWeights = (\<lambda>ls. 0),
       shuffler = (\<lambda>k exs. rotate k exs),
       trainEpoch = (\<lambda>c w b. Inr (Suc w)),
       forward = (\<lambda>w x. case x of
                     [[stock, sold, lead]] \<Rightarrow> Inr (if stock < 100 then 9 / 10 else 1 / 10)
                   | _ \<Rightarrow> Inl (TfError ''expected shape [1,3]'')) \<rparr>"

definition failingLib :: "nat tf_lib" where
  "failingLib =
     \<lparr> buildWeights = (\<lambda>ls. 0),
       shuffler = (\<lambda>k exs. exs),
       trainEpoch = (\<lambda>c w b. Inl (TfError ''out of memory'')),
       forward = (\<lambda>w x. Inl (TfError ''backend lost'')) \<rparr>"

definition flakyLib :: "nat tf_lib" where
  "flakyLib =
     \<lparr> buildWeights = (\<lambda>ls. 0),
       shuffler = (\<lambda>k exs. rotate k exs),
       trainEpoch = (\<lambda>c w b. Inr (Suc w)),
       forward = (\<lambda>w x. Inl (TfError ''backend lost'')) \<rparr>"

text \<open>A catalogue whose first batch holds two products and whose other batches fail.\<close>

definition demoFetch :: "nat \<Rightarrow> error + RawProduct list" where
  "demoFetch i =
     (if i = 0 then Inr [tshirt, jacket] else Inl (HttpError ''HTTP error! status: 503''))"

text \<open>A dashboard with two items loaded and a model stored.\<close>

definition stocked :: "nat tf_lib \<Rightarrow> nat dashboard" where
  "stocked lib =
     initial\<lparr> items := fst (createAugmentedProducts half_draws [tshirt, jacket] 0),
              loading := False, isModelReady := True, tfModel := Some (newModel lib) \<rparr>"

section \<open>Properties of the data augmentation\<close>

lemma createAugmentedProducts_fst_Cons:
  "fst (createAugmentedProducts rnd (p # ps) k) =
     augment (rnd k) (rnd (Suc k)) p # fst (createAugmentedProducts rnd ps (Suc (Suc k)))"
  by (simp add: Let_def split: prod.splits)

lemma createAugmentedProducts_snd_Cons:
  "snd (createAugmentedProducts rnd (p # ps) k) =
     snd (createAugmentedProducts rnd ps (Suc (Suc k)))"
  by (simp add: Let_def split: prod.splits)

declare createAugmentedProducts.simps(2) [simp del]

lemma createAugmentedProducts_snd:
  "snd (createAugmentedProducts rnd ps k) = k + 2 * length ps"
  by (induction ps arbitrary: k) (simp_all add: createAugmentedProducts_snd_Cons)

lemma createAugmentedProducts_mem:
  "it \<in> set (fst (createAugmentedProducts rnd ps k)) \<Longrightarrow>
     \<exists>p j. p \<in> set ps \<and> it = augment (rnd j) (rnd (Suc j)) p"
proof (induction ps arbitrary: k)
  case Nil
  then show ?case by simp
next
  case (Cons p ps)
  from Cons.prems have "it = augment (rnd k) (rnd (Suc k)) p
      \<or> it \<in> set (fst (createAugmentedProducts rnd ps (Suc (Suc k))))"
    by (simp add: createAugmentedProducts_fst_Cons)
  then show ?case
  proof
    assume "it = augment (rnd k) (rnd (Suc k)) p"
    then show ?thesis by auto
  next
    assume "it \<in> set (fst (createAugmentedProducts rnd ps (Suc (Suc k))))"
    from Cons.IH [OF this] show ?thesis by auto
  qed
qed

lemma createAugmentedProducts_length:
  "length (fst (createAugmentedProducts rnd ps k)) = length ps"
  by (induction ps arbitrary: k) (simp_all add: createAugmentedProducts_fst_Cons)

lemma Math_round_mono: "x \<le> y \<Longrightarrow> Math_round x \<le> Math_round y"
  unfolding Math_round_def by (simp add: floor_mono)

lemma createAugmentedProducts_nth:
  "i < length ps \<Longrightarrow>
     fst (createAugmentedProducts rnd ps k) ! i =
       augment (rnd (k + 2 * i)) (rnd (Suc (k + 2 * i))) (ps ! i)"
proof (induction ps arbitrary: k i)
  case Nil
  then show ?case by simp
next
  case (Cons p ps)
  show ?case
  proof (cases i)
    case 0
    then show ?thesis by (simp add: createAugmentedProducts_fst_Cons)
  next
    case (Suc j)
    with Cons.prems have "j < length ps" by simp
    from Cons.IH [OF this, of "Suc (Suc k)"] Suc show ?thesis
      by (simp add: createAugmentedProducts_fst_Cons)
  qed
qed

lemma unit_draws_half: "unit_draws half_draws"
  by (simp add: unit_draws_def half_draws_def)

section \<open>Properties of the prediction pass\<close>

lemma predictItem_Inl:
  assumes "forward lib (weights model) [map real_of_int (mlFeatures it)] = Inl err"
  shows "predictItem lib model it (e, c) =
           (Inl err, \<lparr> nextId = Suc (nextId e), live = live e @ [nextId e] \<rparr>, c)"
  using assms by (simp add: predictItem_def predict_def tensor2d_def)

lemma predictItem_Inr:
  assumes "forward lib (weights model) [map real_of_int (mlFeatures it)] = Inr p"
  shows "predictItem lib model it (e, c) =
           (Inr (it\<lparr> reorderPrediction := (if 0.5 \<le> p then ''REORDER'' else ''No Reorder'') \<rparr>),
            \<lparr> nextId = Suc (Suc (nextId e)),
              live = removeAll (Suc (nextId e))
                       (removeAll (nextId e) (live e @ [nextId e, Suc (nextId e)])) \<rparr>,
            (if 0.5 \<le> p then c + 1 else c))"
  using assms
  by (simp add: predictItem_def predict_def tensor2d_def dispose_def dataSync_def
      first_value_def)

lemma predictItem_cases:
  "(\<exists>err. forward lib (weights model) [map real_of_int (mlFeatures it)] = Inl err
      \<and> predictItem lib model it (e, c) =
           (Inl err, \<lparr> nextId = Suc (nextId e), live = live e @ [nextId e] \<rparr>, c))
   \<or> (\<exists>p. forward lib (weights model) [map real_of_int (mlFeatures it)] = Inr p
      \<and> predictItem lib model it (e, c) =
           (Inr (it\<lparr> reorderPrediction := (if 0.5 \<le> p then ''REORDER'' else ''No Reorder'') \<rparr>),
            \<lparr> nextId = Suc (Suc (nextId e)),
              live = removeAll (Suc (nextId e))
                       (removeAll (nextId e) (live e @ [nextId e, Suc (nextId e)])) \<rparr>,
            (if 0.5 \<le> p then c + 1 else c)))"
proof (cases "forward lib (weights model) [map real_of_int (mlFeatures it)]")
  case (Inl err)
  then show ?thesis using predictItem_Inl [OF Inl] by simp
next
  case (Inr p)
  then show ?thesis using predictItem_Inr [OF Inr] by simp
qed

lemma predictItems_Inr:
  "predictItems lib model its (e, c) = (Inr its', e', c') \<Longrightarrow>
     list_all2 (decided lib model) its its'
     \<and> c' = c + length (filter (\<lambda>it. reorderPrediction it = ''REORDER'') its')"
proof (induction its arbitrary: its' e c)
  case Nil
  then show ?case by simp
next
  case (Cons it its)
  from predictItem_cases [of lib model it e c] show ?case
  proof (elim disjE exE conjE)
    fix err
    assume "predictItem lib model it (e, c) =
              (Inl err, \<lparr> nextId = Suc (nextId e), live = live e @ [nextId e] \<rparr>, c)"
    with Cons.prems show ?thesis by simp
  next
    fix p
    assume fw: "forward lib (weights model) [map real_of_int (mlFeatures it)] = Inr p"
      and pi: "predictItem lib model it (e, c) =
           (Inr (it\<lparr> reorderPrediction := (if 0.5 \<le> p then ''REORDER'' else ''No Reorder'') \<rparr>),
            \<lparr> nextId = Suc (Suc (nextId e)),
              live = removeAll (Suc (nextId e))
                       (removeAll (nextId e) (live e @ [nextId e, Suc (nextId e)])) \<rparr>,
            (if 0.5 \<le> p then c + 1 else c))"
    let ?it' = "it\<lparr> reorderPrediction := (if 0.5 \<le> p then ''REORDER'' else ''No Reorder'') \<rparr>"
    let ?e1 = "\<lparr> nextId = Suc (Suc (nextId e)),
              live = removeAll (Suc (nextId e))
                       (removeAll (nextId e) (live e @ [nextId e, Suc (nextId e)])) \<rparr>"
    let ?c1 = "(if 0.5 \<le> p then c + 1 else c)"
    from Cons.prems pi obtain rest where
      rest: "predictItems lib model its (?e1, ?c1) = (Inr rest, e', c')"
      and its': "its' = ?it' # rest"
      by (auto split: prod.splits sum.splits)
    from Cons.IH [OF rest] have
      ih: "list_all2 (decided lib model) its rest"
        "c' = ?c1 + length (filter (\<lambda>it. reorderPrediction it = ''REORDER'') rest)"
      by simp_all
    have "decided lib model it ?it'"
      unfolding decided_def using fw by blast
    with ih its' show ?thesis by simp
  qed
qed

lemma predictItems_total:
  "\<forall>it\<in>set its. \<exists>p. forward lib (weights model) [map real_of_int (mlFeatures it)] = Inr p \<Longrightarrow>
     \<exists>its' st'. predictItems lib model its (e, c) = (Inr its', st')"
proof (induction its arbitrary: e c)
  case Nil
  then show ?case by simp
next
  case (Cons it its)
  then obtain p where fw: "forward lib (weights model) [map real_of_int (mlFeatures it)] = Inr p"
    by auto
  let ?e1 = "\<lparr> nextId = Suc (Suc (nextId e)),
              live = removeAll (Suc (nextId e))
                       (removeAll (nextId e) (live e @ [nextId e, Suc (nextId e)])) \<rparr>"
  let ?c1 = "(if 0.5 \<le> p then c + 1 else c)"
  from Cons have "\<exists>its' st'. predictItems lib model its (?e1, ?c1) = (Inr its', st')"
    by simp
  then obtain rest st' where "predictItems lib model its (?e1, ?c1) = (Inr rest, st')"
    by blast
  with predictItem_Inr [OF fw, of e c] show ?case by simp
qed

lemma decided_same_fields: "decided lib model it it' \<Longrightarrow> same_fields it it'"
  by (auto simp: decided_def same_fields_def)

lemma same_fields_refl: "list_all2 same_fields its its"
  by (simp add: list_all2_same same_fields_def)

lemma handlePredict_Some_cases:
  assumes "tfModel s = Some model"
  shows "(\<exists>err e c. predictItems lib model (items s) (tf s, 0) = (Inl err, e, c)
            \<and> handlePredict lib s = (Some err, s\<lparr> tf := e \<rparr>))
         \<or> (\<exists>updated e c. predictItems lib model (items s) (tf s, 0) = (Inr updated, e, c)
            \<and> handlePredict lib s =
                (None,
                 s\<lparr> tf := e, items := updated, totalReorder := c,
                    message := Some (''Prediction complete. '' @ decimal c
                      @ '' items flagged for reorder.'', ''success'') \<rparr>))"
proof (cases "predictItems lib model (items s) (tf s, 0)")
  case (fields r e c)
  then show ?thesis
    using assms by (cases r) (simp_all add: handlePredict_def showMessage_def)
qed

lemma handlePredict_frame:
  "list_all2 same_fields (items s) (items (snd (handlePredict lib s)))"
proof (cases "tfModel s")
  case None
  then show ?thesis
    by (simp add: handlePredict_def showMessage_def same_fields_refl)
next
  case (Some model)
  from handlePredict_Some_cases [OF Some, of lib] show ?thesis
  proof (elim disjE exE conjE)
    fix err e c
    assume "handlePredict lib s = (Some err, s\<lparr> tf := e \<rparr>)"
    then show ?thesis by (simp add: same_fields_refl)
  next
    fix updated e c
    assume p: "predictItems lib model (items s) (tf s, 0) = (Inr updated, e, c)"
      and h: "handlePredict lib s =
                (None,
                 s\<lparr> tf := e, items := updated, totalReorder := c,
                    message := Some (''Prediction complete. '' @ decimal c
                      @ '' items flagged for reorder.'', ''success'') \<rparr>)"
    from predictItems_Inr [OF p] have "list_all2 (decided lib model) (items s) updated"
      by simp
    then have "list_all2 same_fields (items s) updated"
      by (rule list_all2_mono) (rule decided_same_fields)
    with h show ?thesis by simp
  qed
qed

lemma predictItems_live:
  "predictItems lib model its (e, c) = (Inr its', e', c') \<Longrightarrow>
     \<forall>i\<in>set (live e). i < nextId e \<Longrightarrow>
     live e' = live e \<and> (\<forall>i\<in>set (live e'). i < nextId e')"
proof (induction its arbitrary: its' e c)
  case Nil
  then show ?case by simp
next
  case (Cons it its)
  from predictItem_cases [of lib model it e c] show ?case
  proof (elim disjE exE conjE)
    fix err
    assume "predictItem lib model it (e, c) =
              (Inl err, \<lparr> nextId = Suc (nextId e), live = live e @ [nextId e] \<rparr>, c)"
    with Cons.prems show ?thesis by simp
  next
    fix p
    assume pi: "predictItem lib model it (e, c) =
           (Inr (it\<lparr> reorderPrediction := (if 0.5 \<le> p then ''REORDER'' else ''No Reorder'') \<rparr>),
            \<lparr> nextId = Suc (Suc (nextId e)),
              live = removeAll (Suc (nextId e))
                       (removeAll (nextId e) (live e @ [nextId e, Suc (nextId e)])) \<rparr>,
            (if 0.5 \<le> p then c + 1 else c))"
    let ?e1 = "\<lparr> nextId = Suc (Suc (nextId e)),
              live = removeAll (Suc (nextId e))
                       (removeAll (nextId e) (live e @ [nextId e, Suc (nextId e)])) \<rparr>"
    let ?c1 = "(if 0.5 \<le> p then c + 1 else c)"
    from Cons.prems(1) pi obtain rest where
      rest: "predictItems lib model its (?e1, ?c1) = (Inr rest, e', c')"
      by (auto split: prod.splits sum.splits)
    from Cons.prems(2) have "nextId e \<notin> set (live e)" "Suc (nextId e) \<notin> set (live e)"
      by auto
    then have l: "live ?e1 = live e"
      by (simp add: removeAll_id)
    with Cons.prems(2) have "\<forall>i\<in>set (live ?e1). i < nextId ?e1"
      by auto
    from Cons.IH [OF rest this] l show ?thesis by simp
  qed
qed

lemma handlePredict_success_no_leak:
  assumes "handlePredict lib s = (None, s')" and "\<forall>i\<in>set (live (tf s)). i < nextId (tf s)"
  shows "numTensors (tf s') = numTensors (tf s)"
proof (cases "tfModel s")
  case None
  with assms(1) show ?thesis by (auto simp: handlePredict_def showMessage_def)
next
  case (Some model)
  from handlePredict_Some_cases [OF Some, of lib] assms(1) obtain updated e c where
    p: "predictItems lib model (items s) (tf s, 0) = (Inr updated, e, c)" and e: "tf s' = e"
    by auto
  from predictItems_live [OF p assms(2)] e show ?thesis by (simp add: numTensors_def)
qed

lemma handlePredict_classifier:
  "isModelReady (snd (handlePredict lib s)) = isModelReady s
   \<and> tfModel (snd (handlePredict lib s)) = tfModel s"
proof (cases "tfModel s")
  case None
  then show ?thesis by (simp add: handlePredict_def showMessage_def)
next
  case (Some model)
  from handlePredict_Some_cases [OF Some, of lib] show ?thesis by auto
qed

section \<open>Properties of the training\<close>

lemma training_data_jsx:
  "trainingFeatures_jsx = take 4 trainingFeatures \<and> trainingLabels_jsx = take 4 trainingLabels"
  by (simp add: trainingFeatures_jsx_def trainingLabels_jsx_def trainingFeatures_def
      trainingLabels_def)

lemma fitLoop_Inr:
  "fitLoop lib c exs args ks (w, h, obs) = Inr (w', h', obs') \<Longrightarrow>
     h' = h @ map (\<lambda>k. (k, if shuffle args then shuffler lib k exs else exs)) ks
     \<and> obs' = (case callbacks args of None \<Rightarrow> obs | Some onEpochEnd \<Rightarrow> fold onEpochEnd ks obs)"
proof (induction ks arbitrary: w h obs)
  case Nil
  then show ?case by (simp split: option.splits)
next
  case (Cons k ks)
  let ?batch = "if shuffle args then shuffler lib k exs else exs"
  from Cons.prems obtain w1 where
    t: "trainEpoch lib c w ?batch = Inr w1"
    and r: "fitLoop lib c exs args ks
              (w1, h @ [(k, ?batch)],
               case callbacks args of None \<Rightarrow> obs | Some onEpochEnd \<Rightarrow> onEpochEnd k obs)
            = Inr (w', h', obs')"
    by (auto simp: Let_def split: sum.splits)
  from Cons.IH [OF r] show ?case
    by (simp split: option.splits)
qed

lemma fitLoop_total:
  assumes "\<forall>c w b. \<exists>w'. trainEpoch lib c w b = Inr w'"
  shows "\<exists>w' h' obs'. fitLoop lib c exs args ks (w, h, obs) = Inr (w', h', obs')"
proof (induction ks arbitrary: w h obs)
  case Nil
  then show ?case by simp
next
  case (Cons k ks)
  let ?batch = "if shuffle args then shuffler lib k exs else exs"
  from assms obtain w1 where "trainEpoch lib c w ?batch = Inr w1" by blast
  with Cons.IH show ?case by (simp add: Let_def)
qed

lemma compiled_newModel:
  "compiled (newModel lib) =
     Some \<lparr> optimizer = ''adam'', loss = ''binaryCrossentropy'', metrics = [''accuracy''] \<rparr>"
  by (simp add: newModel_def compile_def add_def sequential_def)

lemma buildAndTrainModel_Inr:
  assumes "buildAndTrainModel lib onEpochEnd obs e = (Inr (model, obs'), e')"
  shows "history model =
           map (\<lambda>k. (k, shuffler lib k (zip trainingFeatures trainingLabels))) [0 ..< 200]"
    and "obs' = (case onEpochEnd of None \<Rightarrow> obs | Some f \<Rightarrow> fold f [0 ..< 200] obs)"
    and "layers model = layers (newModel lib)"
    and "live e' = removeAll (Suc (nextId e)) (removeAll (nextId e) (live e @ [nextId e, Suc (nextId e)]))"
proof -
  let ?c = "\<lparr> optimizer = ''adam'', loss = ''binaryCrossentropy'', metrics = [''accuracy''] \<rparr>"
  let ?args = "\<lparr> epochs = 200, shuffle = True, callbacks = onEpochEnd \<rparr>"
  from assms obtain w h where
    f: "fitLoop lib ?c (zip trainingFeatures trainingLabels) ?args [0 ..< 200]
          (weights (newModel lib), [], obs) = Inr (w, h, obs')"
    and m: "model = (newModel lib)\<lparr> weights := w, history := h \<rparr>"
    and e': "e' = dispose (fst (tensor2d trainingLabels (snd (tensor2d trainingFeatures e))))
                   (dispose (fst (tensor2d trainingFeatures e))
                      (snd (tensor2d trainingLabels (snd (tensor2d trainingFeatures e)))))"
    by (auto simp: buildAndTrainModel_def fit_def compiled_newModel tensor2d_def Let_def
        split: sum.splits prod.splits)
  from fitLoop_Inr [OF f] m
  show "history model =
           map (\<lambda>k. (k, shuffler lib k (zip trainingFeatures trainingLabels))) [0 ..< 200]"
    and "obs' = (case onEpochEnd of None \<Rightarrow> obs | Some f \<Rightarrow> fold f [0 ..< 200] obs)"
    by simp_all
  from m show "layers model = layers (newModel lib)" by simp
  from e' show "live e' = removeAll (Suc (nextId e)) (removeAll (nextId e) (live e @ [nextId e, Suc (nextId e)]))"
    by (simp add: tensor2d_def dispose_def)
qed

lemma buildAndTrainModel_fit:
  "fst (buildAndTrainModel lib onEpochEnd obs e) =
     fit lib (newModel lib)
       \<lparr> tid = nextId e, vals = trainingFeatures \<rparr>
       \<lparr> tid = Suc (nextId e), vals = trainingLabels \<rparr>
       \<lparr> epochs = 200, shuffle = True, callbacks = onEpochEnd \<rparr> obs"
  by (simp add: buildAndTrainModel_def tensor2d_def Let_def split: sum.splits prod.splits)

lemma buildAndTrainModel_total:
  assumes "\<forall>c w b. \<exists>w'. trainEpoch lib c w b = Inr w'"
  shows "\<exists>model obs' e'. buildAndTrainModel lib onEpochEnd obs e = (Inr (model, obs'), e')"
proof -
  let ?c = "\<lparr> optimizer = ''adam'', loss = ''binaryCrossentropy'', metrics = [''accuracy''] \<rparr>"
  let ?args = "\<lparr> epochs = 200, shuffle = True, callbacks = onEpochEnd \<rparr>"
  from fitLoop_total [OF assms, of ?c "zip trainingFeatures trainingLabels" ?args
      "[0 ..< 200]" "weights (newModel lib)" "[]" obs]
  obtain w' h' obs' where
    "fitLoop lib ?c (zip trainingFeatures trainingLabels) ?args [0 ..< 200]
          (weights (newModel lib), [], obs) = Inr (w', h', obs')"
    by blast
  then show ?thesis
    by (simp add: buildAndTrainModel_def fit_def compiled_newModel tensor2d_def Let_def)
qed

lemma fit_newModel_Inr:
  assumes "fit lib (newModel lib) xs ys \<lparr> epochs = n, shuffle = True, callbacks = cb \<rparr> obs
             = Inr (model, obs')"
  shows "history model = map (\<lambda>k. (k, shuffler lib k (zip (vals xs) (vals ys)))) [0 ..< n]"
    and "obs' = (case cb of None \<Rightarrow> obs | Some f \<Rightarrow> fold f [0 ..< n] obs)"
proof -
  let ?c = "\<lparr> optimizer = ''adam'', loss = ''binaryCrossentropy'', metrics = [''accuracy''] \<rparr>"
  let ?args = "\<lparr> epochs = n, shuffle = True, callbacks = cb \<rparr>"
  from assms obtain w h where
    f: "fitLoop lib ?c (zip (vals xs) (vals ys)) ?args [0 ..< n]
          (weights (newModel lib), [], obs) = Inr (w, h, obs')"
    and m: "model = (newModel lib)\<lparr> weights := w, history := h \<rparr>"
    by (auto simp: fit_def compiled_newModel split: sum.splits prod.splits)
  from fitLoop_Inr [OF f] m
  show "history model = map (\<lambda>k. (k, shuffler lib k (zip (vals xs) (vals ys)))) [0 ..< n]"
    and "obs' = (case cb of None \<Rightarrow> obs | Some f \<Rightarrow> fold f [0 ..< n] obs)"
    by simp_all
qed

lemma buildAndTrainModel_jsx_fit:
  "fst (buildAndTrainModel_jsx lib onEpochEnd obs e) =
     fit lib (newModel lib)
       \<lparr> tid = nextId e, vals = trainingFeatures_jsx \<rparr>
       \<lparr> tid = Suc (nextId e), vals = trainingLabels_jsx \<rparr>
       \<lparr> epochs = 200, shuffle = True, callbacks = onEpochEnd \<rparr> obs"
  by (simp add: buildAndTrainModel_jsx_def tensor2d_def Let_def split: sum.splits prod.splits)

lemma buildAndTrainModel_jsx_Inr:
  assumes "buildAndTrainModel_jsx lib onEpochEnd obs e = (Inr (model, obs'), e')"
  shows "history model =
           map (\<lambda>k. (k, shuffler lib k (zip trainingFeatures_jsx trainingLabels_jsx))) [0 ..< 200]"
    and "obs' = (case onEpochEnd of None \<Rightarrow> obs | Some f \<Rightarrow> fold f [0 ..< 200] obs)"
proof -
  from assms have "fst (buildAndTrainModel_jsx lib onEpochEnd obs e) = Inr (model, obs')"
    by simp
  then have f: "fit lib (newModel lib)
       \<lparr> tid = nextId e, vals = trainingFeatures_jsx \<rparr>
       \<lparr> tid = Suc (nextId e), vals = trainingLabels_jsx \<rparr>
       \<lparr> epochs = 200, shuffle = True, callbacks = onEpochEnd \<rparr> obs = Inr (model, obs')"
    by (simp only: buildAndTrainModel_jsx_fit)
  from fit_newModel_Inr(1) [OF f]
  show "history model =
           map (\<lambda>k. (k, shuffler lib k (zip trainingFeatures_jsx trainingLabels_jsx))) [0 ..< 200]"
    by simp
  from fit_newModel_Inr(2) [OF f]
  show "obs' = (case onEpochEnd of None \<Rightarrow> obs | Some f \<Rightarrow> fold f [0 ..< 200] obs)" .
qed

lemma buildAndTrainModel_jsx_total:
  assumes "\<forall>c w b. \<exists>w'. trainEpoch lib c w b = Inr w'"
  shows "\<exists>model obs' e'. buildAndTrainModel_jsx lib onEpochEnd obs e = (Inr (model, obs'), e')"
proof -
  let ?c = "\<lparr> optimizer = ''adam'', loss = ''binaryCrossentropy'', metrics = [''accuracy''] \<rparr>"
  let ?args = "\<lparr> epochs = 200, shuffle = True, callbacks = onEpochEnd \<rparr>"
  from fitLoop_total [OF assms, of ?c "zip trainingFeatures_jsx trainingLabels_jsx" ?args
      "[0 ..< 200]" "weights (newModel lib)" "[]" obs]
  obtain w' h' obs' where
    "fitLoop lib ?c (zip trainingFeatures_jsx trainingLabels_jsx) ?args [0 ..< 200]
          (weights (newModel lib), [], obs) = Inr (w', h', obs')"
    by blast
  then show ?thesis
    by (simp add: buildAndTrainModel_jsx_def fit_def compiled_newModel tensor2d_def Let_def)
qed

lemma handleTrainModel_Inl:
  assumes "buildAndTrainModel lib None () (tf s) = (Inl err, e)"
  shows "handleTrainModel lib s =
           s\<lparr> isModelReady := False,
              message := Some (''Error training model (check console).'', ''error''),
              tf := e, console := console s @ [''Training error:''] \<rparr>"
  using assms by (simp add: handleTrainModel_def showMessage_def)

lemma handleTrainModel_Inr:
  assumes "buildAndTrainModel lib None () (tf s) = (Inr (model, u), e)"
  shows "handleTrainModel lib s =
           s\<lparr> isModelReady := True,
              message := Some (''Model trained successfully! Ready to predict.'', ''success''),
              tf := e, tfModel := Some model \<rparr>"
  using assms by (simp add: handleTrainModel_def showMessage_def)

section \<open>Properties of the component\<close>

lemma loadProducts_classifier:
  "isModelReady (loadProducts rnd fetchBatch s) = isModelReady s
   \<and> tfModel (loadProducts rnd fetchBatch s) = tfModel s"
  by (simp add: loadProducts_def Let_def split: prod.splits)

lemma step_Trained: "Trained s \<Longrightarrow> Trained (step rnd lib ev s)"
  by (cases ev)
    (simp_all add: Trained_def handlePredict_classifier loadProducts_classifier
      clearMessage_def)

lemma run_Trained: "Trained s \<Longrightarrow> Trained (run rnd lib evs s)"
  by (induction evs arbitrary: s) (simp_all add: step_Trained)

lemma features_ok_augment: "features_ok (augment r1 r2 p)"
  by (simp add: features_ok_def augment_def Let_def)

lemma features_ok_createAugmentedProducts:
  "it \<in> set (fst (createAugmentedProducts rnd ps k)) \<Longrightarrow> features_ok it"
  using createAugmentedProducts_mem features_ok_augment by blast

lemma features_ok_same_fields:
  "same_fields it it' \<Longrightarrow> features_ok it \<Longrightarrow> features_ok it'"
  by (simp add: same_fields_def features_ok_def)

lemma features_ok_list:
  assumes "list_all2 same_fields its its'" and "\<forall>it\<in>set its. features_ok it"
  shows "\<forall>it\<in>set its'. features_ok it"
proof
  fix it' assume "it' \<in> set its'"
  then obtain i where i: "i < length its'" "its' ! i = it'"
    by (auto simp: in_set_conv_nth)
  from assms(1) i(1) have "i < length its" "same_fields (its ! i) (its' ! i)"
    by (simp_all add: list_all2_lengthD list_all2_nthD2)
  with assms(2) i(2) show "features_ok it'"
    using features_ok_same_fields nth_mem by blast
qed

lemma items_loadProducts:
  "items (loadProducts rnd fetchBatch s) =
     fst (createAugmentedProducts rnd (concat (map (batchResult fetchBatch) [0 ..< 5])) (rng s))"
  by (simp add: loadProducts_def Let_def split: prod.splits)

lemma items_handleTrainModel: "items (handleTrainModel lib s) = items s"
proof (cases "buildAndTrainModel lib None () (tf s)")
  case (Pair r e)
  then show ?thesis
    by (cases r) (auto simp: handleTrainModel_Inl handleTrainModel_Inr)
qed

lemma step_features_ok:
  assumes "\<forall>it\<in>set (items s). features_ok it"
  shows "\<forall>it\<in>set (items (step rnd lib ev s)). features_ok it"
proof (cases ev)
  case (Mount fetchBatch)
  then show ?thesis
    by (simp add: items_loadProducts features_ok_createAugmentedProducts del: upt.simps)
next
  case ClickTrain
  with assms show ?thesis by (simp add: items_handleTrainModel)
next
  case ClickPredict
  from features_ok_list [OF handlePredict_frame assms, of lib] assms ClickPredict
  show ?thesis by simp
next
  case MessageTimeout
  with assms show ?thesis by (simp add: clearMessage_def)
qed

lemma run_features_ok:
  "\<forall>it\<in>set (items s). features_ok it \<Longrightarrow>
     \<forall>it\<in>set (items (run rnd lib evs s)). features_ok it"
proof (induction evs arbitrary: s)
  case Nil
  then show ?case by simp
next
  case (Cons ev evs)
  from Cons.prems have "\<forall>it\<in>set (items (step rnd lib ev s)). features_ok it"
    by (rule step_features_ok)
  from Cons.IH [OF this] show ?case by simp
qed

section \<open>The example inputs, evaluated\<close>

lemma items_stocked:
  "items (stocked lib) =
     [\<lparr> id_it = 2, name = ''Mens Casual Premium Slim Fit T-Shirts (B...'',
         currentInventory = 66, averageSalesPerWeek = 13, daysToReplenish = 4,
         reorderPrediction = ''Pending'', mlFeatures = [66, 13, 4] \<rparr>,
      \<lparr> id_it = 3, name = ''Mens Cotton Jacket'', currentInventory = 155,
         averageSalesPerWeek = 31, daysToReplenish = 4,
         reorderPrediction = ''Pending'', mlFeatures = [155, 31, 4] \<rparr>]"
  by (simp add: stocked_def createAugmentedProducts_fst_Cons augment_def half_draws_def
      tshirt_def jacket_def Math_round_def Let_def)

lemma trainEpoch_demoLib: "\<forall>c w b. \<exists>w'. trainEpoch demoLib c w b = Inr w'"
  by (simp add: demoLib_def)

lemma buildAndTrainModel_failingLib:
  "buildAndTrainModel failingLib None () (tf (initial :: nat dashboard)) =
     (Inl (TfError ''out of memory''), \<lparr> nextId = 2, live = [0, 1] \<rparr>)"
  by (simp add: buildAndTrainModel_def fit_def compiled_newModel tensor2d_def initial_def
      failingLib_def upt_conv_Cons Let_def)

lemma Trained_stocked: "Trained (stocked lib)"
  by (simp add: Trained_def stocked_def)

lemma forward_demoLib:
  "forward demoLib w [[a, b, c]] = Inr (if a < 100 then 9 / 10 else 1 / 10)"
  by (simp add: demoLib_def)

lemma forward_demoLib_ex: "\<exists>p. forward demoLib w [[a, b, c]] = Inr p"
  using forward_demoLib by blast

lemma demo_run_items:
  "items (run half_draws demoLib [Mount demoFetch, ClickTrain, ClickPredict] initial) =
     [\<lparr> id_it = 2, name = ''Mens Casual Premium Slim Fit T-Shirts (B...'',
         currentInventory = 66, averageSalesPerWeek = 13, daysToReplenish = 4,
         reorderPrediction = ''REORDER'', mlFeatures = [66, 13, 4] \<rparr>,
      \<lparr> id_it = 3, name = ''Mens Cotton Jacket'', currentInventory = 155,
         averageSalesPerWeek = 31, daysToReplenish = 4,
         reorderPrediction = ''No Reorder'', mlFeatures = [155, 31, 4] \<rparr>]"
  by code_simp

section \<open>Claims about the data augmentation\<close>

text \<open>
  Claim C9. For every title, the display name is the first 40 characters of the title
  followed by \<open>...\<close> when the title is longer than 40 characters, and the title
  unchanged when it has 40 characters or fewer; a title of 45 characters gives a display
  name of exactly 43 characters. Stated for the product at any position \<open>i\<close> of the
  input and the record at the same position of the output.
\<close>

theorem name_truncation:
  assumes "i < length ps"
  shows "name (fst (createAugmentedProducts rnd ps k) ! i) =
           (if 40 < length (title (ps ! i)) then take 40 (title (ps ! i)) @ ''...''
            else title (ps ! i))
         \<and> (length (title (ps ! i)) = 45 \<longrightarrow>
              length (name (fst (createAugmentedProducts rnd ps k) ! i)) = 43)
         \<and> (length (title (ps ! i)) \<le> 40 \<longrightarrow>
              name (fst (createAugmentedProducts rnd ps k) ! i) = title (ps ! i))"
  using assms by (simp add: createAugmentedProducts_nth augment_def Let_def)

theorem name_truncation_witness:
  "(0::nat) < length [tshirt, jacket]
   \<and> length (title ([tshirt, jacket] ! 0)) = 45
   \<and> name (fst (createAugmentedProducts half_draws [tshirt, jacket] 0) ! 0) =
       ''Mens Casual Premium Slim Fit T-Shirts (B...''
   \<and> length (name (fst (createAugmentedProducts half_draws [tshirt, jacket] 0) ! 0)) = 43
   \<and> (1::nat) < length [tshirt, jacket]
   \<and> length (title ([tshirt, jacket] ! 1)) \<le> 40
   \<and> name (fst (createAugmentedProducts half_draws [tshirt, jacket] 0) ! 1) = ''Mens Cotton Jacket''"
  using name_truncation [of 0 "[tshirt, jacket]" half_draws 0]
    name_truncation [of 1 "[tshirt, jacket]" half_draws 0]
  by (simp add: tshirt_def jacket_def)

text \<open>
  Claim C6. For every record that the augmentation produces, and every generator whose
  draws lie in \<open>[0, 1)\<close>, \<open>daysToReplenish\<close> is an integer between 1 and 6, both
  included.
\<close>

theorem leadTime_range:
  assumes "unit_draws rnd" and "it \<in> set (fst (createAugmentedProducts rnd ps k))"
  shows "1 \<le> daysToReplenish it \<and> daysToReplenish it \<le> 6"
proof -
  from assms(2) obtain p j where it: "it = augment (rnd j) (rnd (Suc j)) p"
    using createAugmentedProducts_mem by blast
  from assms(1) have r: "0 \<le> rnd (Suc j)" "rnd (Suc j) < 1"
    by (simp_all add: unit_draws_def)
  have d: "daysToReplenish it = \<lfloor>1 + rnd (Suc j) * 5 + 1 / 2\<rfloor>"
    by (simp add: it augment_def Let_def Math_round_def)
  from r have "1 \<le> \<lfloor>1 + rnd (Suc j) * 5 + 1 / 2\<rfloor>" by (simp add: le_floor_iff)
  moreover from r have "\<lfloor>1 + rnd (Suc j) * 5 + 1 / 2\<rfloor> \<le> 6" by (simp add: floor_le_iff)
  ultimately show ?thesis by (simp add: d)
qed

theorem leadTime_range_witness:
  "unit_draws half_draws
   \<and> augment (1 / 2) (1 / 2) tshirt \<in> set (fst (createAugmentedProducts half_draws [tshirt, jacket] 0))
   \<and> 1 \<le> daysToReplenish (augment (1 / 2) (1 / 2) tshirt)
   \<and> daysToReplenish (augment (1 / 2) (1 / 2) tshirt) \<le> 6"
proof -
  have m: "augment (1 / 2) (1 / 2) tshirt
             \<in> set (fst (createAugmentedProducts half_draws [tshirt, jacket] 0))"
    by (simp add: createAugmentedProducts_fst_Cons half_draws_def)
  from leadTime_range [OF unit_draws_half m] unit_draws_half m show ?thesis by simp
qed

text \<open>
  Claim C5, as stated: for every record produced, \<open>averageSalesPerWeek\<close> lies between
  \<open>round(currentInventory * 0.10)\<close> and \<open>round(currentInventory * 0.30)\<close>. It fails
  for a product whose inventory comes out negative: with price \<open>-6\<close> and id \<open>1\<close> the
  inventory is \<open>-10\<close>, the draw \<open>0\<close> gives average sales \<open>-1\<close>, and the claimed
  interval runs from \<open>-1\<close> down to \<open>-3\<close>.
\<close>

theorem avgSales_claimed_interval_counterexample:
  "unit_draws zero_draws
   \<and> augment 0 0 refund \<in> set (fst (createAugmentedProducts zero_draws [refund] 0))
   \<and> \<not> (Math_round (real_of_int (currentInventory (augment 0 0 refund)) * 0.1)
            \<le> averageSalesPerWeek (augment 0 0 refund)
          \<and> averageSalesPerWeek (augment 0 0 refund)
            \<le> Math_round (real_of_int (currentInventory (augment 0 0 refund)) * 0.3))"
  by (simp add: unit_draws_def zero_draws_def createAugmentedProducts_fst_Cons
      augment_def refund_def Math_round_def Let_def)

text \<open>
  Claim C5, amended: for every record produced whose \<open>currentInventory\<close> is not
  negative, and every generator whose draws lie in \<open>[0, 1)\<close>, \<open>averageSalesPerWeek\<close>
  lies in the closed interval from \<open>round(currentInventory * 0.10)\<close> to
  \<open>round(currentInventory * 0.30)\<close>.
\<close>

theorem avgSales_interval:
  assumes "unit_draws rnd" and "it \<in> set (fst (createAugmentedProducts rnd ps k))"
    and "0 \<le> currentInventory it"
  shows "Math_round (real_of_int (currentInventory it) * 0.1) \<le> averageSalesPerWeek it
         \<and> averageSalesPerWeek it \<le> Math_round (real_of_int (currentInventory it) * 0.3)"
proof -
  from assms(2) obtain p j where it: "it = augment (rnd j) (rnd (Suc j)) p"
    using createAugmentedProducts_mem by blast
  define b where "b = real_of_int (currentInventory it)"
  from assms(3) have b0: "0 \<le> b" by (simp add: b_def)
  from assms(1) have r: "0 \<le> rnd j" "rnd j < 1"
    by (simp_all add: unit_draws_def)
  have avg: "averageSalesPerWeek it = Math_round (b * (0.1 + rnd j * 0.2))"
    by (simp add: it b_def augment_def Let_def)
  from r have f: "0.1 \<le> 0.1 + rnd j * 0.2" "0.1 + rnd j * 0.2 \<le> 0.3" by simp_all
  have "b * 0.1 \<le> b * (0.1 + rnd j * 0.2)"
    by (rule mult_left_mono [OF f(1) b0])
  moreover have "b * (0.1 + rnd j * 0.2) \<le> b * 0.3"
    by (rule mult_left_mono [OF f(2) b0])
  ultimately show ?thesis
    unfolding avg b_def [symmetric] by (simp add: Math_round_mono)
qed

theorem avgSales_interval_witness:
  "unit_draws half_draws
   \<and> augment (1 / 2) (1 / 2) tshirt \<in> set (fst (createAugmentedProducts half_draws [tshirt, jacket] 0))
   \<and> 0 \<le> currentInventory (augment (1 / 2) (1 / 2) tshirt)
   \<and> Math_round (real_of_int (currentInventory (augment (1 / 2) (1 / 2) tshirt)) * 0.1)
       \<le> averageSalesPerWeek (augment (1 / 2) (1 / 2) tshirt)
   \<and> averageSalesPerWeek (augment (1 / 2) (1 / 2) tshirt)
       \<le> Math_round (real_of_int (currentInventory (augment (1 / 2) (1 / 2) tshirt)) * 0.3)"
proof -
  have m: "augment (1 / 2) (1 / 2) tshirt
             \<in> set (fst (createAugmentedProducts half_draws [tshirt, jacket] 0))"
    by (simp add: createAugmentedProducts_fst_Cons half_draws_def)
  have p: "0 \<le> currentInventory (augment (1 / 2) (1 / 2) tshirt)"
    by (simp add: augment_def tshirt_def Math_round_def Let_def)
  from avgSales_interval [OF unit_draws_half m p] unit_draws_half m p show ?thesis by simp
qed

section \<open>Claims about the pipeline\<close>

text \<open>
  Claim C1. Every record that the augmentation produces has the feature array
  \<open>[currentInventory, averageSalesPerWeek, daysToReplenish]\<close>, those three values in that
  order, and so has every record that the component ever holds, whatever happens to it:
  the records of the state are the only ones whose features the prediction pass hands to
  the classifier.
\<close>

theorem features_tuple_invariant:
  "(\<forall>it\<in>set (fst (createAugmentedProducts rnd ps k)).
      mlFeatures it = [currentInventory it, averageSalesPerWeek it, daysToReplenish it])
   \<and> (\<forall>it\<in>set (items (run rnd lib evs initial)).
      mlFeatures it = [currentInventory it, averageSalesPerWeek it, daysToReplenish it])"
proof
  show "\<forall>it\<in>set (fst (createAugmentedProducts rnd ps k)).
      mlFeatures it = [currentInventory it, averageSalesPerWeek it, daysToReplenish it]"
    using features_ok_createAugmentedProducts [of _ rnd ps k]
    by (auto simp: features_ok_def)
next
  have "\<forall>it\<in>set (items (initial :: 'a dashboard)). features_ok it"
    by (simp add: initial_def)
  from run_features_ok [OF this]
  show "\<forall>it\<in>set (items (run rnd lib evs initial)).
      mlFeatures it = [currentInventory it, averageSalesPerWeek it, daysToReplenish it]"
    by (simp add: features_ok_def)
qed

theorem features_tuple_invariant_witness:
  "augment (1 / 2) (1 / 2) tshirt
     \<in> set (fst (createAugmentedProducts half_draws [tshirt, jacket] 0))
   \<and> mlFeatures (augment (1 / 2) (1 / 2) tshirt) = [66, 13, 4]
   \<and> currentInventory (augment (1 / 2) (1 / 2) tshirt) = 66
   \<and> averageSalesPerWeek (augment (1 / 2) (1 / 2) tshirt) = 13
   \<and> daysToReplenish (augment (1 / 2) (1 / 2) tshirt) = 4
   \<and> \<lparr> id_it = 2, name = ''Mens Casual Premium Slim Fit T-Shirts (B...'',
        currentInventory = 66, averageSalesPerWeek = 13, daysToReplenish = 4,
        reorderPrediction = ''REORDER'', mlFeatures = [66, 13, 4] \<rparr>
       \<in> set (items (run half_draws demoLib [Mount demoFetch, ClickTrain, ClickPredict] initial))"
proof -
  let ?it = "\<lparr> id_it = 2, name = ''Mens Casual Premium Slim Fit T-Shirts (B...'',
      currentInventory = 66, averageSalesPerWeek = 13, daysToReplenish = 4,
      reorderPrediction = ''REORDER'', mlFeatures = [66, 13, 4] \<rparr>"
  have a: "augment (1 / 2) (1 / 2) tshirt
             \<in> set (fst (createAugmentedProducts half_draws [tshirt, jacket] 0))"
    by (simp add: createAugmentedProducts_fst_Cons half_draws_def)
  have v: "currentInventory (augment (1 / 2) (1 / 2) tshirt) = 66"
    "averageSalesPerWeek (augment (1 / 2) (1 / 2) tshirt) = 13"
    "daysToReplenish (augment (1 / 2) (1 / 2) tshirt) = 4"
    by (simp_all add: augment_def tshirt_def Math_round_def Let_def)
  have m: "?it \<in> set (items (run half_draws demoLib
             [Mount demoFetch, ClickTrain, ClickPredict] initial))"
    unfolding demo_run_items by simp
  note inv = features_tuple_invariant
    [of half_draws "[tshirt, jacket]" 0 demoLib "[Mount demoFetch, ClickTrain, ClickPredict]"]
  from inv have "mlFeatures (augment (1 / 2) (1 / 2) tshirt)
      = [currentInventory (augment (1 / 2) (1 / 2) tshirt),
         averageSalesPerWeek (augment (1 / 2) (1 / 2) tshirt),
         daysToReplenish (augment (1 / 2) (1 / 2) tshirt)]"
    using a by blast
  with v have "mlFeatures (augment (1 / 2) (1 / 2) tshirt) = [66, 13, 4]" by simp
  moreover from inv m have "mlFeatures ?it
      = [currentInventory ?it, averageSalesPerWeek ?it, daysToReplenish ?it]"
    by blast
  ultimately show ?thesis using a v m by simp
qed

text \<open>
  Claim C2, as stated: the training fits the classifier on a dataset of exactly 6
  examples. It holds for \<open>App.js\<close> and fails for the copy \<open>InventoryDashboard.jsx\<close>,
  whose \<open>buildAndTrainModel\<close> hands the library's fit two tensors of 4 rows.
\<close>

theorem training_six_examples_counterexample:
  "fst (buildAndTrainModel_jsx demoLib None () \<lparr> nextId = 0, live = [] \<rparr>) =
     fit demoLib (newModel demoLib)
       \<lparr> tid = 0, vals = trainingFeatures_jsx \<rparr>
       \<lparr> tid = 1, vals = trainingLabels_jsx \<rparr>
       \<lparr> epochs = 200, shuffle = True, callbacks = None \<rparr> ()
   \<and> length trainingFeatures_jsx = 4
   \<and> length trainingLabels_jsx = 4
   \<and> \<not> (length trainingFeatures_jsx = 6 \<and> length trainingLabels_jsx = 6)"
  by (simp add: buildAndTrainModel_jsx_fit trainingFeatures_jsx_def trainingLabels_jsx_def)

text \<open>
  Claim C2, amended. The training fits the classifier on a fixed dataset of examples of
  three features and a label 0 or 1: exactly 6 examples in \<open>App.js\<close>, and exactly 4, the
  first four of those six, in the copy \<open>InventoryDashboard.jsx\<close>. In both, the outcome
  is that of the library's fit, called on the two tensors of the dataset with
  \<open>epochs: 200\<close> and \<open>shuffle: true\<close>; when the training completes, the fit has run
  exactly 200 epochs, the epoch \<open>k\<close> on the library's \<open>k\<close>-th reshuffling of the full
  dataset, and a callback has been called once for each epoch in turn; and the training
  completes whenever the optimiser does not throw.
\<close>

theorem training_dataset_and_epochs:
  "length trainingFeatures = 6 \<and> length trainingLabels = 6
   \<and> (\<forall>x\<in>set trainingFeatures. length x = 3)
   \<and> (\<forall>y\<in>set trainingLabels. y = [0] \<or> y = [1])
   \<and> fst (buildAndTrainModel lib onEpochEnd obs e) =
       fit lib (newModel lib)
         \<lparr> tid = nextId e, vals = trainingFeatures \<rparr>
         \<lparr> tid = Suc (nextId e), vals = trainingLabels \<rparr>
         \<lparr> epochs = 200, shuffle = True, callbacks = onEpochEnd \<rparr> obs
   \<and> (buildAndTrainModel lib onEpochEnd obs e = (Inr (model, obs'), e') \<longrightarrow>
        length (history model) = 200
        \<and> (\<forall>k<200. history model ! k
               = (k, shuffler lib k (zip trainingFeatures trainingLabels)))
        \<and> obs' = (case onEpochEnd of None \<Rightarrow> obs | Some f \<Rightarrow> fold f [0 ..< 200] obs))
   \<and> ((\<forall>c w b. \<exists>w'. trainEpoch lib c w b = Inr w') \<longrightarrow>
        (\<exists>model obs' e'. buildAndTrainModel lib onEpochEnd obs e = (Inr (model, obs'), e')))
   \<and> length trainingFeatures_jsx = 4 \<and> length trainingLabels_jsx = 4
   \<and> trainingFeatures_jsx = take 4 trainingFeatures
   \<and> trainingLabels_jsx = take 4 trainingLabels
   \<and> (\<forall>x\<in>set trainingFeatures_jsx. length x = 3)
   \<and> (\<forall>y\<in>set trainingLabels_jsx. y = [0] \<or> y = [1])
   \<and> fst (buildAndTrainModel_jsx lib onEpochEnd obs e) =
       fit lib (newModel lib)
         \<lparr> tid = nextId e, vals = trainingFeatures_jsx \<rparr>
         \<lparr> tid = Suc (nextId e), vals = trainingLabels_jsx \<rparr>
         \<lparr> epochs = 200, shuffle = True, callbacks = onEpochEnd \<rparr> obs
   \<and> (buildAndTrainModel_jsx lib onEpochEnd obs e = (Inr (model, obs'), e') \<longrightarrow>
        length (history model) = 200
        \<and> (\<forall>k<200. history model ! k
               = (k, shuffler lib k (zip trainingFeatures_jsx trainingLabels_jsx)))
        \<and> obs' = (case onEpochEnd of None \<Rightarrow> obs | Some f \<Rightarrow> fold f [0 ..< 200] obs))
   \<and> ((\<forall>c w b. \<exists>w'. trainEpoch lib c w b = Inr w') \<longrightarrow>
        (\<exists>model obs' e'.
           buildAndTrainModel_jsx lib onEpochEnd obs e = (Inr (model, obs'), e')))"
proof (intro conjI impI)
  show "length trainingFeatures = 6" by (simp add: trainingFeatures_def)
  show "length trainingLabels = 6" by (simp add: trainingLabels_def)
  show "\<forall>x\<in>set trainingFeatures. length x = 3" by (simp add: trainingFeatures_def)
  show "\<forall>y\<in>set trainingLabels. y = [0] \<or> y = [1]" by (simp add: trainingLabels_def)
  show "fst (buildAndTrainModel lib onEpochEnd obs e) =
       fit lib (newModel lib)
         \<lparr> tid = nextId e, vals = trainingFeatures \<rparr>
         \<lparr> tid = Suc (nextId e), vals = trainingLabels \<rparr>
         \<lparr> epochs = 200, shuffle = True, callbacks = onEpochEnd \<rparr> obs"
    by (rule buildAndTrainModel_fit)
  show "length trainingFeatures_jsx = 4" by (simp add: trainingFeatures_jsx_def)
  show "length trainingLabels_jsx = 4" by (simp add: trainingLabels_jsx_def)
  show "trainingFeatures_jsx = take 4 trainingFeatures" by (simp add: training_data_jsx)
  show "trainingLabels_jsx = take 4 trainingLabels" by (simp add: training_data_jsx)
  show "\<forall>x\<in>set trainingFeatures_jsx. length x = 3" by (simp add: trainingFeatures_jsx_def)
  show "\<forall>y\<in>set trainingLabels_jsx. y = [0] \<or> y = [1]"
    by (simp add: trainingLabels_jsx_def)
  show "fst (buildAndTrainModel_jsx lib onEpochEnd obs e) =
       fit lib (newModel lib)
         \<lparr> tid = nextId e, vals = trainingFeatures_jsx \<rparr>
         \<lparr> tid = Suc (nextId e), vals = trainingLabels_jsx \<rparr>
         \<lparr> epochs = 200, shuffle = True, callbacks = onEpochEnd \<rparr> obs"
    by (rule buildAndTrainModel_jsx_fit)
next
  assume b: "buildAndTrainModel lib onEpochEnd obs e = (Inr (model, obs'), e')"
  note h = buildAndTrainModel_Inr(1) [OF b]
  show "length (history model) = 200" by (simp add: h)
  show "\<forall>k<200. history model ! k = (k, shuffler lib k (zip trainingFeatures trainingLabels))"
    by (simp add: h del: upt.simps)
  show "obs' = (case onEpochEnd of None \<Rightarrow> obs | Some f \<Rightarrow> fold f [0 ..< 200] obs)"
    by (rule buildAndTrainModel_Inr(2) [OF b])
next
  assume "\<forall>c w b. \<exists>w'. trainEpoch lib c w b = Inr w'"
  then show "\<exists>model obs' e'. buildAndTrainModel lib onEpochEnd obs e = (Inr (model, obs'), e')"
    by (rule buildAndTrainModel_total)
next
  assume b: "buildAndTrainModel_jsx lib onEpochEnd obs e = (Inr (model, obs'), e')"
  note h = buildAndTrainModel_jsx_Inr(1) [OF b]
  show "length (history model) = 200" by (simp add: h)
  show "\<forall>k<200. history model ! k
          = (k, shuffler lib k (zip trainingFeatures_jsx trainingLabels_jsx))"
    by (simp add: h del: upt.simps)
  show "obs' = (case onEpochEnd of None \<Rightarrow> obs | Some f \<Rightarrow> fold f [0 ..< 200] obs)"
    by (rule buildAndTrainModel_jsx_Inr(2) [OF b])
next
  assume "\<forall>c w b. \<exists>w'. trainEpoch lib c w b = Inr w'"
  then show "\<exists>model obs' e'.
      buildAndTrainModel_jsx lib onEpochEnd obs e = (Inr (model, obs'), e')"
    by (rule buildAndTrainModel_jsx_total)
qed

theorem training_dataset_and_epochs_witness:
  "(\<exists>model obs' e'.
      buildAndTrainModel demoLib None () \<lparr> nextId = 0, live = [] \<rparr> = (Inr (model, obs'), e')
      \<and> length (history model) = 200
      \<and> history model ! 7 = (7, shuffler demoLib 7 (zip trainingFeatures trainingLabels)))
   \<and> (\<exists>model obs' e'.
      buildAndTrainModel_jsx demoLib None () \<lparr> nextId = 0, live = [] \<rparr>
        = (Inr (model, obs'), e')
      \<and> length (history model) = 200
      \<and> history model ! 7
          = (7, shuffler demoLib 7 (zip trainingFeatures_jsx trainingLabels_jsx)))"
proof
  from training_dataset_and_epochs
    [of demoLib None "()" "\<lparr> nextId = 0, live = [] \<rparr>" "newModel demoLib" "()"
      "\<lparr> nextId = 0, live = [] \<rparr>"]
  have "(\<forall>c w b. \<exists>w'. trainEpoch demoLib c w b = Inr w') \<longrightarrow>
        (\<exists>model obs' e'.
           buildAndTrainModel demoLib None () \<lparr> nextId = 0, live = [] \<rparr>
             = (Inr (model, obs'), e'))"
    by - (elim conjE, assumption)
  with trainEpoch_demoLib obtain model obs' e' where
    b: "buildAndTrainModel demoLib None () \<lparr> nextId = 0, live = [] \<rparr> = (Inr (model, obs'), e')"
    by blast
  from training_dataset_and_epochs
    [of demoLib None "()" "\<lparr> nextId = 0, live = [] \<rparr>" model obs' e']
  have "buildAndTrainModel demoLib None () \<lparr> nextId = 0, live = [] \<rparr>
          = (Inr (model, obs'), e') \<longrightarrow>
        length (history model) = 200
        \<and> (\<forall>k<200. history model ! k
               = (k, shuffler demoLib k (zip trainingFeatures trainingLabels)))
        \<and> obs' = (case None of None \<Rightarrow> () | Some f \<Rightarrow> fold f [0 ..< 200] ())"
    by - (elim conjE, assumption)
  with b have "length (history model) = 200"
    and "history model ! 7 = (7, shuffler demoLib 7 (zip trainingFeatures trainingLabels))"
    by simp_all
  with b show "\<exists>model obs' e'.
      buildAndTrainModel demoLib None () \<lparr> nextId = 0, live = [] \<rparr> = (Inr (model, obs'), e')
      \<and> length (history model) = 200
      \<and> history model ! 7 = (7, shuffler demoLib 7 (zip trainingFeatures trainingLabels))"
    by blast
next
  from training_dataset_and_epochs
    [of demoLib None "()" "\<lparr> nextId = 0, live = [] \<rparr>" "newModel demoLib" "()"
      "\<lparr> nextId = 0, live = [] \<rparr>"]
  have "(\<forall>c w b. \<exists>w'. trainEpoch demoLib c w b = Inr w') \<longrightarrow>
        (\<exists>model obs' e'.
           buildAndTrainModel_jsx demoLib None () \<lparr> nextId = 0, live = [] \<rparr>
             = (Inr (model, obs'), e'))"
    by - (elim conjE, assumption)
  with trainEpoch_demoLib obtain model obs' e' where
    b: "buildAndTrainModel_jsx demoLib None () \<lparr> nextId = 0, live = [] \<rparr>
          = (Inr (model, obs'), e')"
    by blast
  from training_dataset_and_epochs
    [of demoLib None "()" "\<lparr> nextId = 0, live = [] \<rparr>" model obs' e']
  have "buildAndTrainModel_jsx demoLib None () \<lparr> nextId = 0, live = [] \<rparr>
          = (Inr (model, obs'), e') \<longrightarrow>
        length (history model) = 200
        \<and> (\<forall>k<200. history model ! k
               = (k, shuffler demoLib k (zip trainingFeatures_jsx trainingLabels_jsx)))
        \<and> obs' = (case None of None \<Rightarrow> () | Some f \<Rightarrow> fold f [0 ..< 200] ())"
    by - (elim conjE, assumption)
  with b have "length (history model) = 200"
    and "history model ! 7
           = (7, shuffler demoLib 7 (zip trainingFeatures_jsx trainingLabels_jsx))"
    by simp_all
  with b show "\<exists>model obs' e'.
      buildAndTrainModel_jsx demoLib None () \<lparr> nextId = 0, live = [] \<rparr>
        = (Inr (model, obs'), e')
      \<and> length (history model) = 200
      \<and> history model ! 7
          = (7, shuffler demoLib 7 (zip trainingFeatures_jsx trainingLabels_jsx))"
    by blast
qed

text \<open>
  Claim C3. When the training fails, the handler leaves the classifier untrained: the
  flag is clear, the stored model is the one from before the call (none, when there was
  none), the items and the count are untouched, and the failure is reported by the
  error message and the console line. The handler never drops a stored model. Once the
  classifier is trained, no sequence of events of the component makes it untrained: the
  train button is disabled while the flag is set, and the other events leave the flag and
  the model alone.
\<close>

theorem train_failure_keeps_state:
  "(fst (buildAndTrainModel lib None () (tf s)) = Inl err \<longrightarrow>
      \<not> isModelReady (handleTrainModel lib s)
      \<and> tfModel (handleTrainModel lib s) = tfModel s
      \<and> items (handleTrainModel lib s) = items s
      \<and> totalReorder (handleTrainModel lib s) = totalReorder s
      \<and> message (handleTrainModel lib s)
          = Some (''Error training model (check console).'', ''error'')
      \<and> console (handleTrainModel lib s) = console s @ [''Training error:''])
   \<and> (tfModel s \<noteq> None \<longrightarrow> tfModel (handleTrainModel lib s) \<noteq> None)
   \<and> (Trained s \<longrightarrow> Trained (run rnd lib evs s))"
proof (intro conjI impI)
  assume f: "fst (buildAndTrainModel lib None () (tf s)) = Inl err"
  then obtain e where "buildAndTrainModel lib None () (tf s) = (Inl err, e)"
    by (cases "buildAndTrainModel lib None () (tf s)") simp
  note h = handleTrainModel_Inl [OF this]
  show "\<not> isModelReady (handleTrainModel lib s)" by (simp add: h)
  show "tfModel (handleTrainModel lib s) = tfModel s" by (simp add: h)
  show "items (handleTrainModel lib s) = items s" by (simp add: h)
  show "totalReorder (handleTrainModel lib s) = totalReorder s" by (simp add: h)
  show "message (handleTrainModel lib s)
          = Some (''Error training model (check console).'', ''error'')" by (simp add: h)
  show "console (handleTrainModel lib s) = console s @ [''Training error:'']" by (simp add: h)
next
  assume t: "tfModel s \<noteq> None"
  show "tfModel (handleTrainModel lib s) \<noteq> None"
  proof (cases "buildAndTrainModel lib None () (tf s)")
    case (Pair r e)
    with t show ?thesis
      by (cases r) (auto simp: handleTrainModel_Inl handleTrainModel_Inr)
  qed
next
  assume "Trained s"
  then show "Trained (run rnd lib evs s)" by (rule run_Trained)
qed

theorem train_failure_keeps_state_witness:
  "fst (buildAndTrainModel failingLib None () (tf (initial :: nat dashboard)))
     = Inl (TfError ''out of memory'')
   \<and> \<not> isModelReady (handleTrainModel failingLib (initial :: nat dashboard))
   \<and> tfModel (handleTrainModel failingLib (initial :: nat dashboard)) = None
   \<and> message (handleTrainModel failingLib (initial :: nat dashboard))
       = Some (''Error training model (check console).'', ''error'')
   \<and> Trained (stocked demoLib)
   \<and> Trained (run half_draws demoLib [ClickTrain, ClickPredict, MessageTimeout, ClickTrain]
        (stocked demoLib))"
proof -
  have f: "fst (buildAndTrainModel failingLib None () (tf (initial :: nat dashboard)))
             = Inl (TfError ''out of memory'')"
    by (simp add: buildAndTrainModel_failingLib)
  have n: "tfModel (initial :: nat dashboard) = None" by (simp add: initial_def)
  from train_failure_keeps_state
    [of failingLib initial "TfError ''out of memory''" half_draws "[]"] f n
    train_failure_keeps_state
    [of demoLib "stocked demoLib" "TfError ''out of memory''" half_draws
      "[ClickTrain, ClickPredict, MessageTimeout, ClickTrain]"]
    Trained_stocked [of demoLib]
  show ?thesis by simp
qed

text \<open>
  Claim C4 says that every call of the prediction releases its transient tensors on every
  exit path, so that no tensor stays alive after any number of calls. The code disposes
  the input and the output tensor after reading the probability, with no \<open>finally\<close>:
  when the forward pass throws, the input tensor of that item is never disposed. Here the
  component has loaded two items and trained a model, no tensor is alive, and the forward
  pass throws: one tensor is alive after one prediction pass, three after three.
\<close>

theorem predict_error_path_leaks:
  "numTensors (tf (run half_draws flakyLib [Mount demoFetch, ClickTrain] initial)) = 0
   \<and> fst (handlePredict flakyLib (run half_draws flakyLib [Mount demoFetch, ClickTrain] initial))
       = Some (TfError ''backend lost'')
   \<and> numTensors (tf (snd (handlePredict flakyLib
         (run half_draws flakyLib [Mount demoFetch, ClickTrain] initial)))) = 1
   \<and> numTensors (tf (run half_draws flakyLib
         [Mount demoFetch, ClickTrain, ClickPredict, ClickPredict, ClickPredict] initial)) = 3"
  by code_simp

text \<open>
  Claim C7. When every forward pass succeeds, the prediction pass completes, and for every
  item the decision is \<open>REORDER\<close> exactly when the probability given by the classifier is
  at least 0.5 and \<open>No Reorder\<close> otherwise; the count stored is the number of items whose
  decision is \<open>REORDER\<close>.
\<close>

theorem decision_threshold_and_count:
  assumes "tfModel s = Some model"
    and "\<forall>it\<in>set (items s).
           \<exists>p. forward lib (weights model) [map real_of_int (mlFeatures it)] = Inr p"
  shows "\<exists>s'. handlePredict lib s = (None, s')
           \<and> length (items s') = length (items s)
           \<and> (\<forall>i<length (items s).
                 \<exists>p. forward lib (weights model) [map real_of_int (mlFeatures (items s ! i))]
                        = Inr p
                   \<and> reorderPrediction (items s' ! i)
                        = (if p \<ge> 0.5 then ''REORDER'' else ''No Reorder''))
           \<and> totalReorder s'
                = length (filter (\<lambda>it. reorderPrediction it = ''REORDER'') (items s'))"
proof -
  from predictItems_total [OF assms(2), of "tf s" 0]
  obtain updated e c where
    p: "predictItems lib model (items s) (tf s, 0) = (Inr updated, e, c)"
    by (metis prod.exhaust)
  let ?s' = "s\<lparr> tf := e, items := updated, totalReorder := c,
                message := Some (''Prediction complete. '' @ decimal c
                  @ '' items flagged for reorder.'', ''success'') \<rparr>"
  from handlePredict_Some_cases [OF assms(1), of lib] p
  have h: "handlePredict lib s = (None, ?s')" by auto
  from predictItems_Inr [OF p] have
    d: "list_all2 (decided lib model) (items s) updated"
    and c: "c = length (filter (\<lambda>it. reorderPrediction it = ''REORDER'') updated)"
    by simp_all
  from d have len: "length updated = length (items s)"
    by (simp add: list_all2_lengthD)
  have each: "\<forall>i<length (items s).
                 \<exists>p. forward lib (weights model) [map real_of_int (mlFeatures (items s ! i))]
                        = Inr p
                   \<and> reorderPrediction (updated ! i)
                        = (if p \<ge> 0.5 then ''REORDER'' else ''No Reorder'')"
  proof (intro allI impI)
    fix i assume "i < length (items s)"
    with d have "decided lib model (items s ! i) (updated ! i)"
      by (simp add: list_all2_nthD)
    then show "\<exists>p. forward lib (weights model) [map real_of_int (mlFeatures (items s ! i))]
                        = Inr p
                   \<and> reorderPrediction (updated ! i)
                        = (if p \<ge> 0.5 then ''REORDER'' else ''No Reorder'')"
      unfolding decided_def by auto
  qed
  from h len each c show ?thesis by simp
qed

theorem decision_threshold_and_count_witness:
  "\<exists>s'. handlePredict demoLib (stocked demoLib) = (None, s')
      \<and> length (items s') = 2
      \<and> reorderPrediction (items s' ! 0) = ''REORDER''
      \<and> reorderPrediction (items s' ! 1) = ''No Reorder''
      \<and> totalReorder s'
          = length (filter (\<lambda>it. reorderPrediction it = ''REORDER'') (items s'))"
proof -
  have m: "tfModel (stocked demoLib) = Some (newModel demoLib)"
    by (simp add: stocked_def)
  have a: "\<forall>it\<in>set (items (stocked demoLib)).
             \<exists>p. forward demoLib (weights (newModel demoLib)) [map real_of_int (mlFeatures it)]
                   = Inr p"
    by (simp add: items_stocked forward_demoLib_ex)
  from decision_threshold_and_count [OF m a] obtain s' where
    h: "handlePredict demoLib (stocked demoLib) = (None, s')"
    and l: "length (items s') = length (items (stocked demoLib))"
    and d: "\<forall>i<length (items (stocked demoLib)).
              \<exists>p. forward demoLib (weights (newModel demoLib))
                     [map real_of_int (mlFeatures (items (stocked demoLib) ! i))] = Inr p
                \<and> reorderPrediction (items s' ! i)
                     = (if p \<ge> 0.5 then ''REORDER'' else ''No Reorder'')"
    and c: "totalReorder s'
              = length (filter (\<lambda>it. reorderPrediction it = ''REORDER'') (items s'))"
    by blast
  from d [rule_format, of 0] have d0: "reorderPrediction (items s' ! 0) = ''REORDER''"
    by (auto simp: items_stocked forward_demoLib)
  from d [rule_format, of 1] have d1: "reorderPrediction (items s' ! 1) = ''No Reorder''"
    by (auto simp: items_stocked forward_demoLib)
  from l have "length (items s') = 2" by (simp add: items_stocked)
  with h d0 d1 c show ?thesis by blast
qed

text \<open>
  Claim C8. Called while no model is stored, the prediction handler shows the warning
  \<open>Please train the model first!\<close> and returns: no prediction is made, and the items,
  the count, the flag, the stored model and the engine are as before.
\<close>

theorem predict_untrained:
  assumes "tfModel s = None"
  shows "handlePredict lib s =
           (None, s\<lparr> message := Some (''Please train the model first!'', ''warning'') \<rparr>)"
  using assms by (simp add: handlePredict_def showMessage_def)

theorem predict_untrained_witness:
  "tfModel (initial :: nat dashboard) = None
   \<and> handlePredict demoLib initial =
       (None, initial\<lparr> message := Some (''Please train the model first!'', ''warning'') \<rparr>)"
proof -
  have n: "tfModel (initial :: nat dashboard) = None" by (simp add: initial_def)
  from predict_untrained [OF n, of demoLib] n show ?thesis by simp
qed

text \<open>
  Claim C10. For every list of items and every classifier, whether the prediction pass
  completes or not, each record of the state afterwards agrees with the record at the same
  position before on every field other than \<open>reorderPrediction\<close>: the identifier, the
  name, the three numbers and the feature array.
\<close>

theorem prediction_frame:
  "list_all2 same_fields (items s) (items (snd (handlePredict lib s)))"
  by (rule handlePredict_frame)

end
